theory Spec2Isabelle
  imports Complex_Main
begin

section \<open>JavaScript numbers used by the viewer\<close>

text \<open>
  Page numbers reach the controller through \<^verbatim>\<open>parseInt\<close>, which yields either an
  integer or \<^verbatim>\<open>NaN\<close>. Arithmetic and comparison on such values follow
  ECMAScript: every operation with a \<^verbatim>\<open>NaN\<close> operand is \<^verbatim>\<open>NaN\<close>,
  \<^verbatim>\<open>===\<close> is false as soon as one side is \<^verbatim>\<open>NaN\<close>, while React compares
  state and dependencies with \<^verbatim>\<open>Object.is\<close>, for which \<^verbatim>\<open>NaN\<close> equals itself.
  Integers are mathematical integers: sums and differences are exact, as they are in the
  doubles of the source for values up to \<open>2\<^sup>5\<^sup>3\<close> in magnitude.
\<close>

datatype jsnum = JNaN | JNum int

fun jsadd :: "jsnum \<Rightarrow> jsnum \<Rightarrow> jsnum" where
  "jsadd (JNum a) (JNum b) = JNum (a + b)"
| "jsadd _ _ = JNaN"

fun jssub :: "jsnum \<Rightarrow> jsnum \<Rightarrow> jsnum" where
  "jssub (JNum a) (JNum b) = JNum (a - b)"
| "jssub _ _ = JNaN"

fun jsmin :: "jsnum \<Rightarrow> jsnum \<Rightarrow> jsnum" where
  "jsmin (JNum a) (JNum b) = JNum (min a b)"
| "jsmin _ _ = JNaN"

fun jsmax :: "jsnum \<Rightarrow> jsnum \<Rightarrow> jsnum" where
  "jsmax (JNum a) (JNum b) = JNum (max a b)"
| "jsmax _ _ = JNaN"

fun strictEq :: "jsnum \<Rightarrow> jsnum \<Rightarrow> bool" where
  "strictEq (JNum a) (JNum b) = (a = b)"
| "strictEq _ _ = False"

definition objectIs :: "jsnum \<Rightarrow> jsnum \<Rightarrow> bool" where
  "objectIs a b = (a = b)"

text \<open>
  The remainder operator \<^verbatim>\<open>%\<close> truncates towards zero: the result has the sign of
  the dividend. (The divisor is the constant 360 everywhere in the viewer.)
\<close>

definition jsrem :: "int \<Rightarrow> int \<Rightarrow> int" where
  "jsrem a b = sgn a * (\<bar>a\<bar> mod \<bar>b\<bar>)"

section \<open>Geometry transform\<close>

text \<open>
  A point is the pair of its \<^verbatim>\<open>x\<close> and \<^verbatim>\<open>y\<close> fields. Coordinates are IEEE doubles in
  the source; they are modelled as real numbers, so rounding is not represented.
\<close>

type_synonym point = "real \<times> real"

text \<open>\<^verbatim>\<open>(rotation % 360 + 360) % 360\<close>, as written in both call sites.\<close>

definition normalizeRotation :: "int \<Rightarrow> int" where
  "normalizeRotation r = jsrem (jsrem r 360 + 360) 360"

text \<open>
  The \<^verbatim>\<open>switch\<close> of \<^verbatim>\<open>drawVertices\<close>: a normalized vertex to a pixel of a viewport of
  width \<open>W\<close> and height \<open>H\<close>.
\<close>

definition adjustVertex :: "int \<Rightarrow> real \<Rightarrow> real \<Rightarrow> point \<Rightarrow> point" where
  "adjustVertex normalizedAngle W H v =
     (case v of (vx, vy) \<Rightarrow>
        if normalizedAngle = 90 then ((1 - vy) * W, vx * H)
        else if normalizedAngle = 180 then ((1 - vx) * W, (1 - vy) * H)
        else if normalizedAngle = 270 then (vy * W, (1 - vx) * H)
        else (vx * W, vy * H))"

definition drawTransform :: "int \<Rightarrow> real \<Rightarrow> real \<Rightarrow> point \<Rightarrow> point" where
  "drawTransform rotationAngle W H v = adjustVertex (normalizeRotation rotationAngle) W H v"

text \<open>
  The \<^verbatim>\<open>switch\<close> of \<^verbatim>\<open>handleOverlayMouseMove\<close>: the mouse position relative to the
  overlay's bounding rectangle (of width \<open>W\<close> and height \<open>H\<close>) to a normalized point.
  Division by a zero width or height gives \<^verbatim>\<open>NaN\<close> or an infinity in the source and 0
  here; the properties below are stated for rectangles of positive size.
\<close>

definition cursorNormalize :: "int \<Rightarrow> real \<Rightarrow> real \<Rightarrow> point \<Rightarrow> point" where
  "cursorNormalize rotationAngle W H m =
     (case m of (mouseX, mouseY) \<Rightarrow>
        let normalizedRotation = normalizeRotation rotationAngle in
        if normalizedRotation = 90 then (mouseY / H, (W - mouseX) / W)
        else if normalizedRotation = 180 then ((W - mouseX) / W, (H - mouseY) / H)
        else if normalizedRotation = 270 then ((H - mouseY) / H, mouseX / W)
        else (mouseX / W, mouseY / H))"

section \<open>parseInt\<close>

text \<open>
  \<^verbatim>\<open>parseInt(string)\<close> with no radix: leading white space is skipped, an optional sign
  is read, a \<^verbatim>\<open>0x\<close>/\<^verbatim>\<open>0X\<close> prefix selects radix 16, and the longest prefix of
  digits of the radix is the value; with no digit the result is \<^verbatim>\<open>NaN\<close>. The digits
  are read as the integer they denote (the source rounds it to a double, which is the same
  number up to \<open>2\<^sup>5\<^sup>3\<close>).

  A string is the list of its code units, and a \<^typ>\<open>char\<close> is a code unit below 256
  (the characters of Latin-1); strings with other characters are not represented. Among
  these code units the white space and line terminators that \<^verbatim>\<open>parseInt\<close> skips are
  TAB, LF, VT, FF, CR, the space and the no-break space U+00A0.
\<close>

definition isWhiteSpace :: "char \<Rightarrow> bool" where
  "isWhiteSpace c = ((of_char c :: nat) \<in> {9, 10, 11, 12, 13, 32, 160})"

definition digitValue :: "char \<Rightarrow> nat" where
  "digitValue c =
     (let n = (of_char c :: nat) in
      if 48 \<le> n \<and> n \<le> 57 then n - 48
      else if 97 \<le> n \<and> n \<le> 122 then n - 87
      else if 65 \<le> n \<and> n \<le> 90 then n - 55
      else 36)"

definition isDigitOf :: "nat \<Rightarrow> char \<Rightarrow> bool" where
  "isDigitOf radix c = (digitValue c < radix)"

definition digitsToInt :: "nat \<Rightarrow> string \<Rightarrow> int" where
  "digitsToInt radix ds = int (foldl (\<lambda>acc c. acc * radix + digitValue c) 0 ds)"

definition parseDigits :: "nat \<Rightarrow> int \<Rightarrow> string \<Rightarrow> jsnum" where
  "parseDigits radix sign s =
     (let z = takeWhile (isDigitOf radix) s in
      if z = [] then JNaN else JNum (sign * digitsToInt radix z))"

fun parseUnsigned :: "int \<Rightarrow> string \<Rightarrow> jsnum" where
  "parseUnsigned sign (a # b # rest) =
     (if a = CHR ''0'' \<and> (b = CHR ''x'' \<or> b = CHR ''X'') then parseDigits 16 sign rest
      else parseDigits 10 sign (a # b # rest))"
| "parseUnsigned sign s = parseDigits 10 sign s"

fun parseSigned :: "string \<Rightarrow> jsnum" where
  "parseSigned [] = JNaN"
| "parseSigned (c # rest) =
     (if c = CHR ''-'' then parseUnsigned (- 1) rest
      else if c = CHR ''+'' then parseUnsigned 1 rest
      else parseUnsigned 1 (c # rest))"

definition parseIntString :: "string \<Rightarrow> jsnum" where
  "parseIntString s = parseSigned (dropWhile isWhiteSpace s)"

section \<open>Vertices groups\<close>

text \<open>
  The \<^verbatim>\<open>page\<close> field of a group is a number or a string (\<^verbatim>\<open>"all"\<close>). A number is
  an integer page index, and the indices represented are the safe integers of JavaScript
  (\<^verbatim>\<open>Number.isSafeInteger\<close>, from \<open>-(2\<^sup>5\<^sup>3 - 1)\<close> to \<open>2\<^sup>5\<^sup>3 - 1\<close>): a double holds
  such an index and its successor exactly. Fractions and numbers beyond that range
  (which \<^verbatim>\<open>parseInt\<close> would read through their exponent notation from \<open>10\<^sup>2\<^sup>1\<close> on) are
  not represented. On a safe integer \<^verbatim>\<open>parseInt\<close> converts the number to its decimal
  numeral and reads it back, which gives the number itself.
\<close>

typedef page_index = "{n :: int. - (2 ^ 53 - 1) \<le> n \<and> n \<le> 2 ^ 53 - 1}"
  morphisms indexValue pageIndex
  by (rule exI [of _ 0]) simp

datatype page_field = PageNumber page_index | PageString string

fun parseInt :: "page_field \<Rightarrow> jsnum" where
  "parseInt (PageNumber n) = JNum (indexValue n)"
| "parseInt (PageString s) = parseIntString s"

record vertices_group =
  page :: page_field
  key :: string
  vertices :: "point list"

record viewport =
  width :: real
  height :: real

section \<open>Overlay renderer\<close>

text \<open>
  The calls that \<^verbatim>\<open>drawVertices\<close> makes on the 2D context of the overlay canvas, and
  the \<^verbatim>\<open>scrollTo\<close> it makes on the scrollable container, in the order they are made.
\<close>

datatype draw_call =
    ClearRect real real real real
  | StrokeStyle string
  | LineWidth real
  | Save
  | BeginPath
  | MoveTo real real
  | LineTo real real
  | ClosePath
  | FillStyle string
  | Fill
  | Stroke
  | Font string
  | FillRect real real real real
  | FillText string real real
  | Restore
  | ScrollTo real real string

text \<open>
  \<^verbatim>\<open>scrollToVertex(x, y, scale, container, margin=50)\<close>; \<open>hasContainer\<close> says whether
  \<^verbatim>\<open>scrollableRef.current\<close> is set.
\<close>

definition scrollToVertex :: "real \<Rightarrow> real \<Rightarrow> bool \<Rightarrow> real \<Rightarrow> draw_call list" where
  "scrollToVertex vx vy hasContainer margin =
     (if hasContainer then
        (let scrollX = vx - margin;
             scrollY = vy - margin;
             adjustedX = max scrollX 0;
             adjustedY = max scrollY 0
         in [ScrollTo adjustedX adjustedY ''smooth''])
      else [])"

text \<open>
  The body of the inner \<^verbatim>\<open>forEach\<close> over the vertices of one group, as a loop over the
  index: the state is the list of calls made so far and \<^verbatim>\<open>firstVertex\<close>.
\<close>

fun forEachVertex ::
  "viewport \<Rightarrow> int \<Rightarrow> nat \<Rightarrow> bool \<Rightarrow> bool \<Rightarrow> nat \<Rightarrow> point list \<Rightarrow>
   draw_call list \<times> point option \<Rightarrow> draw_call list \<times> point option" where
  "forEachVertex vp normalizedAngle nGroups scrollToView hasContainer index [] st = st"
| "forEachVertex vp normalizedAngle nGroups scrollToView hasContainer index (vertex # rest)
     (calls, firstVertex) =
     (let (adjustedX, adjustedY) = adjustVertex normalizedAngle (width vp) (height vp) vertex;
          (calls1, firstVertex1) =
            (if index = 0 then (calls @ [MoveTo adjustedX adjustedY], Some (adjustedX, adjustedY))
             else (calls @ [LineTo adjustedX adjustedY], firstVertex));
          calls2 =
            (if nGroups = 1 \<and> scrollToView
             then calls1 @ scrollToVertex adjustedX adjustedY hasContainer 50
             else calls1)
      in forEachVertex vp normalizedAngle nGroups scrollToView hasContainer (Suc index) rest
           (calls2, firstVertex1))"

text \<open>
  The label drawn when \<^verbatim>\<open>text && firstVertex\<close>; \<open>measureText\<close> stands for
  \<^verbatim>\<open>context.measureText(text).width\<close>.
\<close>

definition drawLabel :: "(string \<Rightarrow> real) \<Rightarrow> string \<Rightarrow> point option \<Rightarrow> draw_call list" where
  \<open>drawLabel measureText text firstVertex =
     (case firstVertex of
        None \<Rightarrow> []
      | Some (fx, fy) \<Rightarrow>
          if text = [] then []
          else
            (let textWidth = measureText text;
                 textHeight = 16
             in [FillStyle ''rgba(0, 0, 255, 0.8)'',
                 Font ''bold 14px "Hanken Grotesk"'',
                 FillStyle ''rgba(0, 0, 255)'',
                 FillRect (fx - textWidth / 2 - 4) (fy - textHeight - 10) (textWidth + 8) textHeight,
                 FillStyle ''white'',
                 FillText text (fx - (textWidth / 2)) (fy - 15)]))\<close>

text \<open>The body of the outer \<^verbatim>\<open>forEach\<close>, for one group.\<close>

definition drawGroup ::
  "(string \<Rightarrow> real) \<Rightarrow> bool \<Rightarrow> viewport \<Rightarrow> nat \<Rightarrow> int \<Rightarrow> bool \<Rightarrow> string \<Rightarrow> jsnum \<Rightarrow>
   vertices_group \<Rightarrow> draw_call list \<Rightarrow> draw_call list" where
  "drawGroup measureText hasContainer vp nGroups rotationAngle scrollToView text pg vertice calls =
     (if page vertice = PageString ''all'' \<or> strictEq (parseInt (page vertice)) (jssub pg (JNum 1))
      then
        (let calls1 = calls @ [StrokeStyle ''rgba(0, 0, 255, 0.8)'', LineWidth 1, Save];
             normalizedAngle = normalizeRotation rotationAngle;
             calls2 = calls1 @ [BeginPath];
             (calls3, firstVertex) =
               forEachVertex vp normalizedAngle nGroups scrollToView hasContainer 0
                 (vertices vertice) (calls2, None);
             calls4 = calls3 @ [ClosePath, FillStyle ''rgba(0, 0, 255, 0.2)'', Fill, Stroke];
             calls5 = calls4 @ drawLabel measureText text firstVertex
         in calls5 @ [Restore])
      else calls)"

definition drawVertices ::
  "(string \<Rightarrow> real) \<Rightarrow> bool \<Rightarrow> viewport \<Rightarrow> vertices_group list \<Rightarrow> int \<Rightarrow> bool \<Rightarrow> string \<Rightarrow>
   jsnum \<Rightarrow> draw_call list" where
  "drawVertices measureText hasContainer vp vertices' rotationAngle scrollToView text pg =
     fold (drawGroup measureText hasContainer vp (length vertices') rotationAngle scrollToView
             text pg)
       vertices' [ClearRect 0 0 (width vp) (height vp)]"

section \<open>Viewer controller\<close>

text \<open>
  The state of the \<^verbatim>\<open>PDFViewer\<close> component: its \<^verbatim>\<open>useState\<close> cells, the pending
  \<^verbatim>\<open>setTimeout\<close> callbacks, the overlay canvas (absent until a page has been rendered),
  the calls made on that canvas so far, and the calls of \<^verbatim>\<open>renderPage\<close> (which renders the
  base page bitmap) with their arguments. A loaded document is an object: \<open>docRef\<close> tells
  one document object from another (React compares them by reference), and
  \<open>docNumPages\<close> is its \<^verbatim>\<open>numPages\<close>.

  \<^verbatim>\<open>renderPage\<close> is asynchronous. \<open>canvasCount\<close> counts the overlay canvases created so
  far, so it identifies the one now in the container, and \<open>pendingRenders\<close> holds the
  calls of \<^verbatim>\<open>renderPage\<close> that wait for \<^verbatim>\<open>pdf.getPage\<close>, each with the canvas it
  created, the document and its arguments.
\<close>

datatype pdf_document = PdfDocument (docRef: nat) (docNumPages: int)

record error_value =
  isOpen :: bool
  message :: string

datatype timer_action =
    SetLoading bool
  | UpdateVertices "vertices_group list" bool jsnum int

record viewer =
  pdf :: "pdf_document option"
  rotation :: int
  numPages :: int
  currentPage :: jsnum
  loading :: bool
  showError :: error_value
  scale :: real
  timers :: "(nat \<times> timer_action) list"
  overlayCanvas :: "viewport option"
  hasScrollable :: bool
  overlayCalls :: "draw_call list"
  renderPageCalls :: "(jsnum \<times> real \<times> int) list"
  canvasCount :: nat
  pendingRenders :: "(nat \<times> pdf_document \<times> jsnum \<times> real \<times> int) list"

definition defaultErrorValue :: error_value where
  "defaultErrorValue = \<lparr>isOpen = False, message = []\<rparr>"

definition initialViewer :: viewer where
  "initialViewer =
     \<lparr>pdf = None, rotation = 0, numPages = 0, currentPage = JNum 1, loading = True,
      showError = defaultErrorValue, scale = 1.5, timers = [], overlayCanvas = None,
      hasScrollable = True, overlayCalls = [], renderPageCalls = [], canvasCount = 0,
      pendingRenders = []\<rparr>"

text \<open>
  \<^verbatim>\<open>renderPage\<close> up to its first \<^verbatim>\<open>await\<close>: the container is emptied and a new page
  canvas, a new overlay canvas and a new text layer are put in it. A canvas is created
  300 wide and 150 high (the default of the canvas element) and with nothing drawn on it.
  The rest of the function waits for \<^verbatim>\<open>pdf.getPage(currentPage)\<close>.
\<close>

definition renderPage :: "pdf_document \<Rightarrow> jsnum \<Rightarrow> real \<Rightarrow> int \<Rightarrow> viewer \<Rightarrow> viewer" where
  "renderPage doc pg sc rot s =
     s\<lparr>overlayCanvas := Some \<lparr>width = 300, height = 150\<rparr>,
       overlayCalls := [],
       canvasCount := Suc (canvasCount s),
       pendingRenders := pendingRenders s @ [(Suc (canvasCount s), doc, pg, sc, rot)],
       renderPageCalls := renderPageCalls s @ [(pg, sc, rot)]\<rparr>"

text \<open>
  \<^verbatim>\<open>renderPage\<close> after \<^verbatim>\<open>pdf.getPage\<close>, for the call that has waited longest. The
  promise is rejected, and the function ends there, unless the page is a number from 1 to
  the number of pages of the document. Otherwise the two canvases that the call created
  get the width and height of the page's viewport (\<open>getViewport\<close> stands for
  \<^verbatim>\<open>page.getViewport({scale, rotation})\<close> of the rendering library), which also erases
  what was drawn on them; this shows only if the overlay canvas of the call is still the
  one in the container. The page bitmap and the text layer, rendered next, are not
  represented.
\<close>

definition resumeRenderPage :: "(int \<Rightarrow> real \<Rightarrow> int \<Rightarrow> viewport) \<Rightarrow> viewer \<Rightarrow> viewer" where
  "resumeRenderPage getViewport s =
     (case pendingRenders s of
        [] \<Rightarrow> s
      | (canvasId, doc, pg, sc, rot) # rest \<Rightarrow>
          (let s1 = s\<lparr>pendingRenders := rest\<rparr> in
           case pg of
             JNaN \<Rightarrow> s1
           | JNum p \<Rightarrow>
               if 1 \<le> p \<and> p \<le> docNumPages doc \<and> canvasId = canvasCount s
               then s1\<lparr>overlayCanvas := Some (getViewport p sc rot), overlayCalls := []\<rparr>
               else s1))"

text \<open>
  The effect with dependencies \<^verbatim>\<open>[pdf, scale, rotation, currentPage]\<close>: after an update
  from state \<open>old\<close> to state \<open>new\<close> it runs when one dependency differs (by
  \<^verbatim>\<open>Object.is\<close>), and calls \<^verbatim>\<open>renderPage\<close> unless no document is loaded.
\<close>

definition renderPageEffect :: "viewer \<Rightarrow> viewer \<Rightarrow> viewer" where
  "renderPageEffect old new =
     (if pdf new = pdf old \<and> scale new = scale old \<and> rotation new = rotation old
         \<and> objectIs (currentPage new) (currentPage old)
      then new
      else
        (case pdf new of
           None \<Rightarrow> new
         | Some doc \<Rightarrow> renderPage doc (currentPage new) (scale new) (rotation new) new))"

text \<open>Zoom, rotation and page navigation: each sets one cell from its previous value.\<close>

definition MAX_SCALE :: real where
  "MAX_SCALE = 5"

definition MIN_SCALE :: real where
  "MIN_SCALE = 0.5"

definition zoomIn :: "viewer \<Rightarrow> viewer" where
  "zoomIn s = renderPageEffect s (s\<lparr>scale := min (scale s * 1.2) MAX_SCALE\<rparr>)"

definition zoomOut :: "viewer \<Rightarrow> viewer" where
  "zoomOut s = renderPageEffect s (s\<lparr>scale := max (scale s / 1.2) MIN_SCALE\<rparr>)"

definition rotateLeft :: "viewer \<Rightarrow> viewer" where
  "rotateLeft s = renderPageEffect s (s\<lparr>rotation := jsrem (rotation s - 90) 360\<rparr>)"

definition rotateRight :: "viewer \<Rightarrow> viewer" where
  "rotateRight s = renderPageEffect s (s\<lparr>rotation := jsrem (rotation s + 90) 360\<rparr>)"

definition nextPage :: "viewer \<Rightarrow> viewer" where
  "nextPage s =
     renderPageEffect s
       (s\<lparr>currentPage := jsmin (jsadd (currentPage s) (JNum 1)) (JNum (numPages s))\<rparr>)"

definition prevPage :: "viewer \<Rightarrow> viewer" where
  "prevPage s =
     renderPageEffect s (s\<lparr>currentPage := jsmax (jssub (currentPage s) (JNum 1)) (JNum 1)\<rparr>)"

datatype viewer_action = ZoomIn | ZoomOut | RotateLeft | RotateRight | NextPage | PrevPage

fun applyAction :: "viewer \<Rightarrow> viewer_action \<Rightarrow> viewer" where
  "applyAction s ZoomIn = zoomIn s"
| "applyAction s ZoomOut = zoomOut s"
| "applyAction s RotateLeft = rotateLeft s"
| "applyAction s RotateRight = rotateRight s"
| "applyAction s NextPage = nextPage s"
| "applyAction s PrevPage = prevPage s"

definition runActions :: "viewer \<Rightarrow> viewer_action list \<Rightarrow> viewer" where
  "runActions s acts = foldl applyAction s acts"

subsection \<open>Loading the document\<close>






subsection \<open>External annotation update\<close>


text \<open>
  The effect with dependency \<^verbatim>\<open>[verticesGroups]\<close>. The callback given to
  \<^verbatim>\<open>setTimeout\<close> closes over the \<^verbatim>\<open>rotation\<close> of the render in which the effect ran.
\<close>

definition targetPage :: "vertices_group list \<Rightarrow> jsnum" where
  "targetPage verticesGroups =
     (if length verticesGroups > 0
      then jsadd (parseInt (page (verticesGroups ! 0))) (JNum 1)
      else JNum 1)"

definition verticesGroupsEffect :: "vertices_group list \<Rightarrow> viewer \<Rightarrow> viewer" where
  "verticesGroupsEffect verticesGroups s =
     (let pg = targetPage verticesGroups
      in renderPageEffect s
           (s\<lparr>currentPage := pg,
              timers := timers s @ [(10, UpdateVertices verticesGroups True pg (rotation s))]\<rparr>))"



section \<open>Upload filter\<close>

text \<open>
  The regular expression of \<^verbatim>\<open>fileFilter\<close> is an alternation of literals with the flag
  \<^verbatim>\<open>i\<close>; it is represented by the list of its alternatives, the last of which is
  empty. \<^verbatim>\<open>test\<close> succeeds when some alternative matches at some position of the
  string (the end included), letters compared without case.
\<close>

definition toLower :: "char \<Rightarrow> char" where
  "toLower c =
     (let n = (of_char c :: nat) in if 65 \<le> n \<and> n \<le> 90 then char_of (n + 32) else c)"

fun matchesAt :: "string \<Rightarrow> string \<Rightarrow> bool" where
  "matchesAt [] s = True"
| "matchesAt (a # as) [] = False"
| "matchesAt (a # as) (c # cs) = (toLower a = toLower c \<and> matchesAt as cs)"

fun regexTest :: "string list \<Rightarrow> string \<Rightarrow> bool" where
  "regexTest alternatives [] = list_ex (\<lambda>a. matchesAt a []) alternatives"
| "regexTest alternatives (c # cs) =
     (list_ex (\<lambda>a. matchesAt a (c # cs)) alternatives \<or> regexTest alternatives cs)"

definition filetypes :: "string list" where
  "filetypes = [''pdf'', ''xml'', ''png'', ''jpg'', ''jpeg'', []]"

text \<open>The outcome of the filter: the arguments it gives to its callback.\<close>

datatype filter_result = Accepted | Rejected string

record uploaded_file =
  originalname :: string
  mimetype :: string

definition fileFilter :: "uploaded_file \<Rightarrow> filter_result" where
  "fileFilter file =
     (if regexTest filetypes (mimetype file) then Accepted
      else Rejected (''Erreur : Seuls les fichiers PDF et XML sont accept''
                     @ [CHR 0xE9] @ ''s''))"

section \<open>The overlay renderer as the specification words it\<close>

text \<open>
  The description of the draw routine: the surface is cleared, then each group whose page
  is \<^verbatim>\<open>"all"\<close> or parses to the current page minus one is drawn as a closed path (move
  to the first transformed vertex, lines to the others), filled and stroked, with its label.
\<close>

definition isDrawnOn :: "jsnum \<Rightarrow> vertices_group \<Rightarrow> bool" where
  "isDrawnOn pg g =
     (page g = PageString ''all'' \<or> strictEq (parseInt (page g)) (jssub pg (JNum 1)))"

fun tracePath :: "point list \<Rightarrow> draw_call list" where
  "tracePath [] = []"
| "tracePath (p # ps) = MoveTo (fst p) (snd p) # map (\<lambda>q. LineTo (fst q) (snd q)) ps"

definition firstOf :: "point list \<Rightarrow> point option" where
  "firstOf ps = (case ps of [] \<Rightarrow> None | p # _ \<Rightarrow> Some p)"

definition specGroup ::
  "(string \<Rightarrow> real) \<Rightarrow> viewport \<Rightarrow> int \<Rightarrow> string \<Rightarrow> vertices_group \<Rightarrow> draw_call list" where
  "specGroup measureText vp rotationAngle text g =
     (let ps = map (drawTransform rotationAngle (width vp) (height vp)) (vertices g)
      in [StrokeStyle ''rgba(0, 0, 255, 0.8)'', LineWidth 1, Save, BeginPath]
         @ tracePath ps
         @ [ClosePath, FillStyle ''rgba(0, 0, 255, 0.2)'', Fill, Stroke]
         @ drawLabel measureText text (firstOf ps)
         @ [Restore])"

definition specDraw ::
  "(string \<Rightarrow> real) \<Rightarrow> viewport \<Rightarrow> vertices_group list \<Rightarrow> int \<Rightarrow> string \<Rightarrow> jsnum \<Rightarrow>
   draw_call list" where
  "specDraw measureText vp gs rotationAngle text pg =
     ClearRect 0 0 (width vp) (height vp)
     # concat (map (specGroup measureText vp rotationAngle text) (filter (isDrawnOn pg) gs))"

fun isScrollTo :: "draw_call \<Rightarrow> bool" where
  "isScrollTo (ScrollTo _ _ _) = True"
| "isScrollTo _ = False"

definition canvasCalls :: "draw_call list \<Rightarrow> draw_call list" where
  "canvasCalls calls = filter (\<lambda>c. \<not> isScrollTo c) calls"

definition scrollCalls :: "draw_call list \<Rightarrow> draw_call list" where
  "scrollCalls calls = filter isScrollTo calls"

text \<open>The scroll target described: the vertex less the margin, not below zero.\<close>

definition scrollTargetOf :: "point \<Rightarrow> draw_call" where
  "scrollTargetOf p = ScrollTo (max (fst p - 50) 0) (max (snd p - 50) 0) ''smooth''"

section \<open>Notions used in the statements\<close>

text \<open>
  The calls made for one vertex at index \<open>idx\<close> by the body of the inner loop, once the
  vertex has been transformed to \<open>p\<close>.
\<close>

definition vertexCalls :: "nat \<Rightarrow> bool \<Rightarrow> bool \<Rightarrow> nat \<Rightarrow> point \<Rightarrow> draw_call list" where
  "vertexCalls n sc hc idx p =
     (if idx = 0 then MoveTo (fst p) (snd p) else LineTo (fst p) (snd p))
     # (if n = 1 \<and> sc then scrollToVertex (fst p) (snd p) hc 50 else [])"

text \<open>The invariant of page navigation: the current page is a number from 1 to \<^verbatim>\<open>numPages\<close>.\<close>

definition pageInRange :: "viewer \<Rightarrow> bool" where
  "pageInRange s =
     (case currentPage s of JNaN \<Rightarrow> False | JNum p \<Rightarrow> 1 \<le> p \<and> p \<le> numPages s)"

text \<open>
  A numeric string: after its leading white space and one optional sign it starts with a
  decimal digit, or with \<^verbatim>\<open>0x\<close> or \<^verbatim>\<open>0X\<close> and then a hexadecimal digit. Every other
  string is non-numeric: \<^verbatim>\<open>"all"\<close>, the empty string, \<^verbatim>\<open>"-abc"\<close>, \<^verbatim>\<open>" all"\<close>,
  \<^verbatim>\<open>"+"\<close>, \<^verbatim>\<open>"0x"\<close>.
\<close>

definition afterSign :: "string \<Rightarrow> string" where
  "afterSign s =
     (case s of
        [] \<Rightarrow> []
      | c # rest \<Rightarrow> if c = CHR ''+'' \<or> c = CHR ''-'' then rest else c # rest)"

definition startsWithDigit :: "nat \<Rightarrow> string \<Rightarrow> bool" where
  "startsWithDigit radix s = (case s of [] \<Rightarrow> False | c # _ \<Rightarrow> isDigitOf radix c)"

definition hasRadixPrefix :: "string \<Rightarrow> bool" where
  "hasRadixPrefix s = (take 2 s = ''0x'' \<or> take 2 s = ''0X'')"

definition isNumericString :: "string \<Rightarrow> bool" where
  "isNumericString str =
     (let body = afterSign (dropWhile isWhiteSpace str) in
      if hasRadixPrefix body then startsWithDigit 16 (drop 2 body)
      else startsWithDigit 10 body)"

text \<open>
  The two zoom updates with the rounding of the arithmetic made explicit: \<open>fl\<close> rounds the
  exact product or quotient to a double, and \<open>factor\<close> is the double written \<^verbatim>\<open>1.2\<close>.
  With no rounding they are the updates of \<open>zoomIn\<close> and \<open>zoomOut\<close>.
\<close>

definition zoomInRounded :: "(real \<Rightarrow> real) \<Rightarrow> real \<Rightarrow> real \<Rightarrow> real" where
  "zoomInRounded fl factor prevScale = min (fl (prevScale * factor)) MAX_SCALE"

definition zoomOutRounded :: "(real \<Rightarrow> real) \<Rightarrow> real \<Rightarrow> real \<Rightarrow> real" where
  "zoomOutRounded fl factor prevScale = max (fl (prevScale / factor)) MIN_SCALE"

text \<open>
  A viewer that shows page 1 of a document of three pages, with an overlay canvas of 600
  by 800 in the container.
\<close>

definition loadedViewer :: viewer where
  "loadedViewer =
     initialViewer\<lparr>pdf := Some (PdfDocument 1 3), numPages := 3, loading := False,
       overlayCanvas := Some \<lparr>width = 600, height = 800\<rparr>, canvasCount := 1\<rparr>"

text \<open>The values a stored rotation can take (see \<open>rotation_after_actions\<close> below).\<close>

definition rotationStored :: "int \<Rightarrow> bool" where
  "rotationStored r = (r \<in> {- 270, - 180, - 90, 0, 90, 180, 270})"

section \<open>Properties\<close>

subsection \<open>Auxiliary facts\<close>

lemma renderPageEffect_fields:
  "pdf (renderPageEffect a b) = pdf b"
  "rotation (renderPageEffect a b) = rotation b"
  "numPages (renderPageEffect a b) = numPages b"
  "currentPage (renderPageEffect a b) = currentPage b"
  "loading (renderPageEffect a b) = loading b"
  "showError (renderPageEffect a b) = showError b"
  "scale (renderPageEffect a b) = scale b"
  "timers (renderPageEffect a b) = timers b"
  "hasScrollable (renderPageEffect a b) = hasScrollable b"
  by (simp_all add: renderPageEffect_def renderPage_def split: option.splits)

lemma normalizeRotation_cases:
  "normalizeRotation 0 = 0" "normalizeRotation 90 = 90"
  "normalizeRotation 180 = 180" "normalizeRotation 270 = 270"
  by (simp_all add: normalizeRotation_def jsrem_def)

lemma jsrem_360_values:
  "jsrem (- 360) 360 = 0" "jsrem (- 270) 360 = - 270" "jsrem (- 180) 360 = - 180"
  "jsrem (- 90) 360 = - 90" "jsrem 0 360 = 0" "jsrem 90 360 = 90" "jsrem 180 360 = 180"
  "jsrem 270 360 = 270" "jsrem 360 360 = 0"
  by (simp_all add: jsrem_def)

lemma rotationStored_step:
  assumes "rotationStored (rotation s)"
  shows "rotationStored (rotation (applyAction s a))"
proof -
  from assms consider "rotation s = - 270" | "rotation s = - 180" | "rotation s = - 90"
    | "rotation s = 0" | "rotation s = 90" | "rotation s = 180" | "rotation s = 270"
    by (auto simp: rotationStored_def)
  then show ?thesis
    by cases
      (cases a; simp add: rotationStored_def renderPageEffect_fields zoomIn_def zoomOut_def
         rotateLeft_def rotateRight_def nextPage_def prevPage_def jsrem_360_values)+
qed

lemma rotationStored_run:
  "rotationStored (rotation s) \<Longrightarrow> rotationStored (rotation (runActions s acts))"
  unfolding runActions_def
  by (induction acts arbitrary: s) (simp_all add: rotationStored_step)

lemma normalize_stored:
  "rotationStored r \<Longrightarrow> normalizeRotation r \<in> {0, 90, 180, 270}"
  by (auto simp: rotationStored_def normalizeRotation_def jsrem_def)

lemma regexTest_empty_alternative:
  "[] \<in> set alternatives \<Longrightarrow> regexTest alternatives s"
  by (cases s) (auto simp: list_ex_iff intro: bexI [where x = "[]"])

text \<open>
  Without the empty alternative the expression does tell types apart: it finds
  \<^verbatim>\<open>pdf\<close> in \<^verbatim>\<open>application/PDF\<close> and nothing in \<^verbatim>\<open>text/plain\<close>.
\<close>

lemma regexTest_without_empty_alternative:
  "regexTest [''pdf'', ''xml'', ''png'', ''jpg'', ''jpeg''] ''application/PDF''"
  "\<not> regexTest [''pdf'', ''xml'', ''png'', ''jpg'', ''jpeg''] ''text/plain''"
  by code_simp+

lemma canvasCalls_append: "canvasCalls (xs @ ys) = canvasCalls xs @ canvasCalls ys"
  by (simp add: canvasCalls_def)

lemma scrollCalls_append: "scrollCalls (xs @ ys) = scrollCalls xs @ scrollCalls ys"
  by (simp add: scrollCalls_def)

lemma canvasCalls_Cons:
  "canvasCalls (c # xs) = (if isScrollTo c then canvasCalls xs else c # canvasCalls xs)"
  by (simp add: canvasCalls_def)

lemma scrollCalls_Cons:
  "scrollCalls (c # xs) = (if isScrollTo c then c # scrollCalls xs else scrollCalls xs)"
  by (simp add: scrollCalls_def)

lemma canvasCalls_Nil: "canvasCalls [] = []"
  by (simp add: canvasCalls_def)

lemma scrollCalls_Nil: "scrollCalls [] = []"
  by (simp add: scrollCalls_def)

lemma canvasCalls_scrollToVertex: "canvasCalls (scrollToVertex a b hc m) = []"
  by (simp add: canvasCalls_def scrollToVertex_def Let_def)

lemma scrollCalls_scrollToVertex:
  "scrollCalls (scrollToVertex a b hc 50) = (if hc then [scrollTargetOf (a, b)] else [])"
  by (simp add: scrollCalls_def scrollToVertex_def scrollTargetOf_def Let_def)

lemma forEachVertex_Cons:
  "forEachVertex vp ang n sc hc idx (v # vs) (calls, fv) =
     forEachVertex vp ang n sc hc (Suc idx) vs
       (calls @ vertexCalls n sc hc idx (adjustVertex ang (width vp) (height vp) v),
        if idx = 0 then Some (adjustVertex ang (width vp) (height vp) v) else fv)"
  by (cases "adjustVertex ang (width vp) (height vp) v") (simp add: vertexCalls_def)

lemma canvasCalls_vertexCalls:
  "canvasCalls (vertexCalls n sc hc idx p) =
     [if idx = 0 then MoveTo (fst p) (snd p) else LineTo (fst p) (snd p)]"
  by (simp add: vertexCalls_def canvasCalls_Cons canvasCalls_scrollToVertex canvasCalls_Nil)

lemma scrollCalls_vertexCalls:
  "scrollCalls (vertexCalls n sc hc idx p) =
     (if n = 1 \<and> sc \<and> hc then [scrollTargetOf p] else [])"
  by (simp add: vertexCalls_def scrollCalls_Cons scrollCalls_scrollToVertex scrollCalls_Nil)

lemma forEachVertex_canvas:
  "canvasCalls (fst (forEachVertex vp ang n sc hc idx vs (calls, fv))) =
     canvasCalls calls @
       (if idx = 0 then tracePath (map (adjustVertex ang (width vp) (height vp)) vs)
        else map (\<lambda>q. LineTo (fst q) (snd q)) (map (adjustVertex ang (width vp) (height vp)) vs))"
proof (induction vs arbitrary: idx calls fv)
  case Nil
  then show ?case by simp
next
  case (Cons v vs)
  show ?case
    unfolding forEachVertex_Cons Cons.IH
    by (simp add: canvasCalls_append canvasCalls_vertexCalls)
qed

lemma forEachVertex_scroll:
  "scrollCalls (fst (forEachVertex vp ang n sc hc idx vs (calls, fv))) =
     scrollCalls calls @
       (if n = 1 \<and> sc \<and> hc
        then map scrollTargetOf (map (adjustVertex ang (width vp) (height vp)) vs)
        else [])"
proof (induction vs arbitrary: idx calls fv)
  case Nil
  then show ?case by simp
next
  case (Cons v vs)
  show ?case
    unfolding forEachVertex_Cons Cons.IH
    by (simp add: scrollCalls_append scrollCalls_vertexCalls)
qed

lemma forEachVertex_first:
  "snd (forEachVertex vp ang n sc hc idx vs (calls, fv)) =
     (if idx = 0
      then (case firstOf (map (adjustVertex ang (width vp) (height vp)) vs) of
              None \<Rightarrow> fv | Some p \<Rightarrow> Some p)
      else fv)"
proof (induction vs arbitrary: idx calls fv)
  case Nil
  then show ?case by (simp add: firstOf_def)
next
  case (Cons v vs)
  show ?case
    unfolding forEachVertex_Cons Cons.IH
    by (simp add: firstOf_def)
qed

lemma canvasCalls_drawLabel: "canvasCalls (drawLabel m text fv) = drawLabel m text fv"
  by (simp add: drawLabel_def canvasCalls_def Let_def split: option.splits prod.splits)

lemma scrollCalls_drawLabel: "scrollCalls (drawLabel m text fv) = []"
  by (simp add: drawLabel_def scrollCalls_def Let_def split: option.splits prod.splits)

lemma firstOf_cases: "(case firstOf ps of None \<Rightarrow> None | Some p \<Rightarrow> Some p) = firstOf ps"
  by (simp split: option.splits)

lemma drawGroup_unfold:
  assumes "isDrawnOn pg g"
  shows "drawGroup m hc vp n rot sc text pg g calls =
     (let r = forEachVertex vp (normalizeRotation rot) n sc hc 0 (vertices g)
                (calls @ [StrokeStyle ''rgba(0, 0, 255, 0.8)'', LineWidth 1, Save, BeginPath], None)
      in fst r @ [ClosePath, FillStyle ''rgba(0, 0, 255, 0.2)'', Fill, Stroke]
         @ drawLabel m text (snd r) @ [Restore])"
  using assms by (simp add: drawGroup_def isDrawnOn_def Let_def split: prod.splits)

lemma drawTransform_eq:
  "drawTransform rot W H = adjustVertex (normalizeRotation rot) W H"
  by (rule ext) (simp add: drawTransform_def)

lemma drawGroup_canvas:
  "canvasCalls (drawGroup m hc vp n rot sc text pg g calls) =
     canvasCalls calls @ (if isDrawnOn pg g then specGroup m vp rot text g else [])"
proof (cases "isDrawnOn pg g")
  case False
  then show ?thesis by (simp add: drawGroup_def isDrawnOn_def)
next
  case True
  show ?thesis
    by (simp add: drawGroup_unfold [OF True] True Let_def canvasCalls_append canvasCalls_Cons
        canvasCalls_Nil canvasCalls_drawLabel forEachVertex_canvas forEachVertex_first
        firstOf_cases specGroup_def drawTransform_eq)
qed

lemma drawGroup_scroll:
  "scrollCalls (drawGroup m hc vp n rot sc text pg g calls) =
     scrollCalls calls @
       (if isDrawnOn pg g \<and> n = 1 \<and> sc \<and> hc
        then map (\<lambda>v. scrollTargetOf (drawTransform rot (width vp) (height vp) v)) (vertices g)
        else [])"
proof (cases "isDrawnOn pg g")
  case False
  then show ?thesis by (simp add: drawGroup_def isDrawnOn_def)
next
  case True
  show ?thesis
    by (simp add: drawGroup_unfold [OF True] True Let_def scrollCalls_append scrollCalls_Cons
        scrollCalls_Nil scrollCalls_drawLabel forEachVertex_scroll drawTransform_eq comp_def)
qed

lemma fold_drawGroup_canvas:
  "canvasCalls (fold (drawGroup m hc vp n rot sc text pg) gs calls) =
     canvasCalls calls @ concat (map (specGroup m vp rot text) (filter (isDrawnOn pg) gs))"
  by (induction gs arbitrary: calls) (simp_all add: drawGroup_canvas)

lemma fold_drawGroup_scroll:
  "scrollCalls (fold (drawGroup m hc vp n rot sc text pg) gs calls) =
     scrollCalls calls @
       (if n = 1 \<and> sc \<and> hc
        then concat (map (\<lambda>g. map (\<lambda>v. scrollTargetOf (drawTransform rot (width vp) (height vp) v))
                                (vertices g)) (filter (isDrawnOn pg) gs))
        else [])"
  by (induction gs arbitrary: calls) (simp_all add: drawGroup_scroll)


lemma scroll_targets:
  "scrollCalls (drawVertices m hc vp gs rot sc text pg) =
     (if length gs = 1 \<and> sc \<and> hc
      then concat (map (\<lambda>g. map (\<lambda>v. scrollTargetOf (drawTransform rot (width vp) (height vp) v))
                              (vertices g)) (filter (isDrawnOn pg) gs))
      else [])"
  by (simp add: drawVertices_def fold_drawGroup_scroll scrollCalls_Cons scrollCalls_Nil)


lemma targetPage_Cons: "targetPage (g # gs) = jsadd (parseInt (page g)) (JNum 1)"
  by (simp add: targetPage_def)

lemma verticesGroupsEffect_fields:
  "currentPage (verticesGroupsEffect vgs s) = targetPage vgs"
  "timers (verticesGroupsEffect vgs s) =
     timers s @ [(10, UpdateVertices vgs True (targetPage vgs) (rotation s))]"
  "numPages (verticesGroupsEffect vgs s) = numPages s"
  "hasScrollable (verticesGroupsEffect vgs s) = hasScrollable s"
  "pdf (verticesGroupsEffect vgs s) = pdf s"
  by (simp_all add: verticesGroupsEffect_def Let_def renderPageEffect_fields)



text \<open>
  When \<^verbatim>\<open>pdf.getPage\<close> answers for the call of \<^verbatim>\<open>renderPage\<close> whose overlay canvas is in
  the container, that canvas gets the size of the page's viewport and loses what was drawn
  on it; for a page that the document does not have, nothing happens.
\<close>

lemma resumeRenderPage_sizes_overlay:
  assumes "pendingRenders s = [(canvasCount s, doc, JNum p, sc, rot)]"
    and "1 \<le> p" and "p \<le> docNumPages doc"
  shows "overlayCanvas (resumeRenderPage getViewport s) = Some (getViewport p sc rot)"
    and "overlayCalls (resumeRenderPage getViewport s) = []"
    and "pendingRenders (resumeRenderPage getViewport s) = []"
  using assms by (simp_all add: resumeRenderPage_def)

lemma resumeRenderPage_rejected:
  assumes "pendingRenders s = [(canvasCount s, doc, JNaN, sc, rot)]"
  shows "resumeRenderPage getViewport s = s\<lparr>pendingRenders := []\<rparr>"
  using assms by (simp add: resumeRenderPage_def)




lemma indexValue_pageIndex:
  "- (2 ^ 53 - 1) \<le> k \<Longrightarrow> k \<le> 2 ^ 53 - 1 \<Longrightarrow> indexValue (pageIndex k) = k"
  by (simp add: pageIndex_inverse)

lemma parseDigits_NaN:
  "(parseDigits radix sg s = JNaN) = (\<not> startsWithDigit radix s)"
  by (cases s) (simp_all add: parseDigits_def startsWithDigit_def)

lemma parseUnsigned_NaN:
  "(parseUnsigned sg u = JNaN) =
     (\<not> (if hasRadixPrefix u then startsWithDigit 16 (drop 2 u) else startsWithDigit 10 u))"
proof (cases u)
  case Nil
  then show ?thesis by (simp add: parseDigits_NaN hasRadixPrefix_def)
next
  case (Cons a v)
  then show ?thesis
    by (cases v) (auto simp add: parseDigits_NaN hasRadixPrefix_def)
qed

lemma parseSigned_NaN:
  "(parseSigned t = JNaN) =
     (\<not> (if hasRadixPrefix (afterSign t) then startsWithDigit 16 (drop 2 (afterSign t))
         else startsWithDigit 10 (afterSign t)))"
proof (cases t)
  case Nil
  then show ?thesis by (simp add: afterSign_def hasRadixPrefix_def startsWithDigit_def)
next
  case (Cons c rest)
  then show ?thesis by (simp add: afterSign_def parseUnsigned_NaN)
qed

lemma parseIntString_NaN:
  "(parseIntString str = JNaN) = (\<not> isNumericString str)"
  by (simp add: parseIntString_def isNumericString_def parseSigned_NaN Let_def)

lemma jsadd_NaN: "(jsadd a (JNum b) = JNaN) = (a = JNaN)"
  by (cases a) simp_all

text \<open>Strings that are not numeric, and strings that are.\<close>

lemma isNumericString_examples:
  "\<not> isNumericString ''all''" "\<not> isNumericString []" "\<not> isNumericString ''-abc''"
  "\<not> isNumericString '' all''" "\<not> isNumericString ''+''" "\<not> isNumericString ''0x''"
  "isNumericString ''12px''" "isNumericString '' -0x1F''"
  "isNumericString [CHR 0xA0, CHR ''7'']"
  by (simp_all add: isNumericString_def afterSign_def hasRadixPrefix_def startsWithDigit_def
      isWhiteSpace_def isDigitOf_def digitValue_def)

text \<open>\<^verbatim>\<open>parseInt\<close> on some strings: a numeric prefix is read, a sign and a radix prefix too.\<close>

lemma parseIntString_examples:
  "parseIntString ''all'' = JNaN"
  "parseIntString ''2'' = JNum 2"
  "parseIntString ''12px'' = JNum 12"
  "parseIntString '' -0x1F'' = JNum (- 31)"
  "parseIntString [CHR 0xA0, CHR ''7''] = JNum 7"
  by (simp_all add: parseIntString_def isWhiteSpace_def parseDigits_def isDigitOf_def
      digitValue_def digitsToInt_def)

lemma scale_step:
  assumes "1 / 2 \<le> scale s" "scale s \<le> 5"
  shows "1 / 2 \<le> scale (applyAction s a) \<and> scale (applyAction s a) \<le> 5"
  using assms
  by (cases a)
     (simp_all add: zoomIn_def zoomOut_def rotateLeft_def rotateRight_def nextPage_def
        prevPage_def renderPageEffect_fields MAX_SCALE_def MIN_SCALE_def)

lemma scale_run:
  "1 / 2 \<le> scale s \<Longrightarrow> scale s \<le> 5 \<Longrightarrow>
   1 / 2 \<le> scale (runActions s acts) \<and> scale (runActions s acts) \<le> 5"
  unfolding runActions_def
proof (induction acts arbitrary: s)
  case Nil
  then show ?case by simp
next
  case (Cons a acts)
  from scale_step [OF Cons.prems] Cons.IH show ?case by simp
qed

lemma nextPage_currentPage:
  "currentPage (nextPage s) = jsmin (jsadd (currentPage s) (JNum 1)) (JNum (numPages s))"
  "numPages (nextPage s) = numPages s"
  by (simp_all add: nextPage_def renderPageEffect_fields)

lemma prevPage_currentPage:
  "currentPage (prevPage s) = jsmax (jssub (currentPage s) (JNum 1)) (JNum 1)"
  "numPages (prevPage s) = numPages s"
  by (simp_all add: prevPage_def renderPageEffect_fields)






text \<open>
  The bounds of the zoom do not depend on exact arithmetic: they hold for any monotone
  rounding that leaves 0.5 and 5 as they are, and any factor of at least 1.
\<close>

lemma zoom_rounded_bounds:
  assumes mono: "\<And>a b. a \<le> b \<Longrightarrow> fl a \<le> fl b"
    and lo: "fl (1 / 2) = 1 / 2" and hi: "fl 5 = 5"
    and c: "1 \<le> factor" and x: "1 / 2 \<le> prevScale" "prevScale \<le> 5"
  shows "1 / 2 \<le> zoomInRounded fl factor prevScale \<and> zoomInRounded fl factor prevScale \<le> 5
    \<and> 1 / 2 \<le> zoomOutRounded fl factor prevScale \<and> zoomOutRounded fl factor prevScale \<le> 5"
proof -
  have "prevScale * 1 \<le> prevScale * factor"
    using c x by (intro mult_left_mono) auto
  then have "prevScale \<le> prevScale * factor" by simp
  with x(1) have "1 / 2 \<le> prevScale * factor" by (rule order_trans)
  from mono [OF this] lo have up: "1 / 2 \<le> fl (prevScale * factor)" by simp
  have "prevScale / factor \<le> prevScale / 1"
    using c x by (intro divide_left_mono) auto
  then have "prevScale / factor \<le> prevScale" by simp
  then have "prevScale / factor \<le> 5" using x(2) by (rule order_trans)
  from mono [OF this] hi have down: "fl (prevScale / factor) \<le> 5" by simp
  from up down show ?thesis
    by (simp add: zoomInRounded_def zoomOutRounded_def MAX_SCALE_def MIN_SCALE_def)
qed

lemma zoom_rounded_exact:
  "scale (zoomIn s) = zoomInRounded (\<lambda>x. x) 1.2 (scale s)"
  "scale (zoomOut s) = zoomOutRounded (\<lambda>x. x) 1.2 (scale s)"
  by (simp_all add: zoomIn_def zoomOut_def zoomInRounded_def zoomOutRounded_def
      renderPageEffect_fields)

text \<open>Every stored value is reached: three rotations to the left, or to the right.\<close>

lemma rotation_examples:
  "rotation (runActions initialViewer [RotateLeft, RotateLeft, RotateLeft]) = - 270"
  "rotation (runActions initialViewer [RotateLeft, RotateLeft, RotateLeft, RotateLeft]) = 0"
  "rotation (runActions initialViewer [RotateRight, RotateRight, RotateRight]) = 270"
  "rotation (runActions initialViewer [RotateRight, RotateRight, RotateRight, RotateRight]) = 0"
  by (simp_all add: runActions_def rotateLeft_def rotateRight_def renderPageEffect_fields
      initialViewer_def jsrem_def)

subsection \<open>Geometry\<close>

text \<open>
  C1. For every rotation in {0, 90, 180, 270}, every viewport of positive width \<open>W\<close> and
  height \<open>H\<close> and every point of the unit square, normalizing the pixel that the draw-time
  transform produces gives the point back: the cursor normalization is the inverse of the
  draw-time transform. Coordinates are real numbers here, so the equation is exact; in
  the doubles of the source it holds up to rounding.
\<close>

theorem transform_roundtrip:
  assumes "r \<in> {0, 90, 180, 270}" and "0 < W" and "0 < H"
    and "0 \<le> px" and "px \<le> 1" and "0 \<le> py" and "py \<le> 1"
  shows "cursorNormalize r W H (drawTransform r W H (px, py)) = (px, py)"
proof -
  have W: "W \<noteq> 0" and H: "H \<noteq> 0" using assms by auto
  have a: "(W - (1 - t) * W) / W = t" for t
    using W by (simp add: field_simps)
  have b: "(H - (1 - t) * H) / H = t" for t
    using H by (simp add: field_simps)
  from assms(1) consider "r = 0" | "r = 90" | "r = 180" | "r = 270"
    by auto
  then show ?thesis
    by cases
      (simp_all add: cursorNormalize_def drawTransform_def adjustVertex_def
        normalizeRotation_cases W H a b)
qed

theorem transform_roundtrip_witness:
  "(90::int) \<in> {0, 90, 180, 270} \<and> (0::real) < 800 \<and> (0::real) < 600
   \<and> cursorNormalize 90 800 600 (drawTransform 90 800 600 (1 / 4, 3 / 4)) = (1 / 4, 3 / 4)"
  using transform_roundtrip [of 90 800 600 "1 / 4" "3 / 4"] by simp

subsection \<open>Rotation\<close>

text \<open>
  C2, as the claim has it, fails: the remainder keeps the sign of the dividend, so the
  first \<^verbatim>\<open>rotateLeft\<close> stores \<open>-90\<close>, which is not one of 0, 90, 180, 270.
\<close>

theorem rotateLeft_stores_negative:
  "rotation (rotateLeft initialViewer) = - 90
   \<and> rotation (rotateLeft initialViewer) \<notin> {0, 90, 180, 270}"
  by (simp add: rotateLeft_def initialViewer_def renderPageEffect_fields jsrem_def)

text \<open>
  C2, amended. After any sequence of actions from the initial state the stored rotation
  is a multiple of 90 strictly between \<open>-360\<close> and 360, and the value that the draw
  routine, the cursor handler and the page renderer use, the stored rotation normalized by
  \<^verbatim>\<open>(r % 360 + 360) % 360\<close>, is one of 0, 90, 180, 270.
\<close>

theorem rotation_after_actions:
  "rotation (runActions initialViewer acts) \<in> {- 270, - 180, - 90, 0, 90, 180, 270}
   \<and> normalizeRotation (rotation (runActions initialViewer acts)) \<in> {0, 90, 180, 270}"
proof -
  have "rotationStored (rotation initialViewer)"
    by (simp add: rotationStored_def initialViewer_def)
  then have st: "rotationStored (rotation (runActions initialViewer acts))"
    by (rule rotationStored_run)
  from st have "rotation (runActions initialViewer acts) \<in> {- 270, - 180, - 90, 0, 90, 180, 270}"
    by (simp add: rotationStored_def)
  moreover from st
  have "normalizeRotation (rotation (runActions initialViewer acts)) \<in> {0, 90, 180, 270}"
    by (rule normalize_stored)
  ultimately show ?thesis by simp
qed

subsection \<open>Upload filter\<close>

text \<open>
  C3. The filter accepts every file: the last alternative of the expression is empty and
  matches any mimetype, so the branch that rejects with the error message is never taken.
\<close>

theorem fileFilter_accepts_every_file:
  "fileFilter file = Accepted"
  by (simp add: fileFilter_def filetypes_def regexTest_empty_alternative)

subsection \<open>Overlay renderer\<close>

text \<open>
  C7. Every call of the draw routine first clears the whole surface and then draws, in
  order, exactly the groups whose page is \<^verbatim>\<open>"all"\<close> or parses to the page argument
  minus one, each as a closed path from its first transformed vertex, filled with the
  translucent colour and stroked; a group of any other page contributes no call. The calls
  made on the canvas by the loops of the source are those of the description
  \<open>specDraw\<close>.
\<close>

theorem drawVertices_draws_page_groups:
  "canvasCalls (drawVertices m hc vp gs rot sc text pg) = specDraw m vp gs rot text pg"
  by (simp add: drawVertices_def specDraw_def fold_drawGroup_canvas canvasCalls_Cons canvasCalls_Nil)

text \<open>
  C6, as the claim has it, fails: \<^verbatim>\<open>scrollToVertex\<close> is called in the loop over the
  vertices, for each of them, so the last call, which decides where the viewport ends up,
  is made for the last vertex. For a square drawn alone on a viewport of 1000 by 1000 the
  final target is (50, 250), while the first vertex less the margin is (50, 50).
\<close>

theorem scroll_target_is_not_first_vertex:
  "isDrawnOn (JNum 1) \<lparr>page = PageNumber (pageIndex 0), key = ''total'',
       vertices = [(1 / 10, 1 / 10), (3 / 10, 1 / 10), (3 / 10, 3 / 10), (1 / 10, 3 / 10)]\<rparr>
   \<and> last (scrollCalls (drawVertices (\<lambda>t. 0) True \<lparr>width = 1000, height = 1000\<rparr>
        [\<lparr>page = PageNumber (pageIndex 0), key = ''total'',
          vertices = [(1 / 10, 1 / 10), (3 / 10, 1 / 10), (3 / 10, 3 / 10), (1 / 10, 3 / 10)]\<rparr>]
        0 True [] (JNum 1)))
      = ScrollTo 50 250 ''smooth''
   \<and> scrollTargetOf (drawTransform 0 1000 1000 (1 / 10, 1 / 10)) = ScrollTo 50 50 ''smooth''"
  by (simp add: scroll_targets isDrawnOn_def scrollTargetOf_def drawTransform_def
      adjustVertex_def normalizeRotation_cases indexValue_pageIndex)

text \<open>
  C6, amended. The draw routine scrolls only when the list it is given has exactly one
  group, \<^verbatim>\<open>scrollToView\<close> is true and the scrollable container exists; it then
  requests one smooth scroll per vertex of that group, if the group is drawn on the page,
  in the order of the vertices, each to the transformed vertex less the margin of 50 and
  not below 0. The final scroll target is therefore the one of the last vertex of the
  group (which is the first vertex only for a group of one vertex).
\<close>

theorem drawVertices_scroll_targets:
  "scrollCalls (drawVertices m hc vp gs rot sc text pg) =
     (if length gs = 1 \<and> sc \<and> hc
      then concat (map (\<lambda>g. map (\<lambda>v. scrollTargetOf (drawTransform rot (width vp) (height vp) v))
                              (vertices g)) (filter (isDrawnOn pg) gs))
      else [])
   \<and> (isDrawnOn pg g \<and> vertices g \<noteq> [] \<longrightarrow>
        last (scrollCalls (drawVertices m True vp [g] rot True text pg)) =
          scrollTargetOf (drawTransform rot (width vp) (height vp) (last (vertices g))))"
  by (simp add: scroll_targets last_map)

theorem drawVertices_scroll_targets_witness:
  "isDrawnOn (JNum 3) \<lparr>page = PageString ''all'', key = ''date'',
       vertices = [(1 / 2, 1 / 2), (3 / 4, 1 / 2), (3 / 4, 3 / 4)]\<rparr>
   \<and> last (scrollCalls (drawVertices (\<lambda>t. 0) True \<lparr>width = 800, height = 400\<rparr>
        [\<lparr>page = PageString ''all'', key = ''date'',
          vertices = [(1 / 2, 1 / 2), (3 / 4, 1 / 2), (3 / 4, 3 / 4)]\<rparr>] 180 True [] (JNum 3)))
      = scrollTargetOf (drawTransform 180 800 400 (3 / 4, 3 / 4))"
  using drawVertices_scroll_targets
    [of "\<lambda>t. 0" True "\<lparr>width = 800, height = 400\<rparr>"
        "[\<lparr>page = PageString ''all'', key = ''date'',
           vertices = [(1 / 2, 1 / 2), (3 / 4, 1 / 2), (3 / 4, 3 / 4)]\<rparr>]" 180 True "[]" "JNum 3"
        "\<lparr>page = PageString ''all'', key = ''date'',
          vertices = [(1 / 2, 1 / 2), (3 / 4, 1 / 2), (3 / 4, 3 / 4)]\<rparr>"]
  by (simp add: isDrawnOn_def)

subsection \<open>External annotation update\<close>



text \<open>
  C5. When the page of the first group is the string \<^verbatim>\<open>"all"\<close>, the update sets the
  current page to \<^verbatim>\<open>NaN\<close>; for a string page in general it does so exactly when the
  string is not numeric. The update does not clamp: for a numeric page \<open>n\<close> it sets
  \<open>n + 1\<close> whatever the number of pages. So the invariant of page navigation, a current
  page from 1 to \<^verbatim>\<open>numPages\<close>, does not hold after an update with a non-numeric page, nor
  after one with a numeric page that is negative or not below \<^verbatim>\<open>numPages\<close>.
\<close>

theorem verticesGroups_update_not_clamped:
  "(page g = PageString ''all'' \<longrightarrow>
      currentPage (verticesGroupsEffect (g # gs) s) = JNaN
      \<and> \<not> pageInRange (verticesGroupsEffect (g # gs) s))
   \<and> (page g = PageString str \<longrightarrow>
        (currentPage (verticesGroupsEffect (g # gs) s) = JNaN) = (\<not> isNumericString str))
   \<and> (page g = PageString str \<and> \<not> isNumericString str \<longrightarrow>
        \<not> pageInRange (verticesGroupsEffect (g # gs) s))
   \<and> (page g = PageNumber n \<longrightarrow>
        currentPage (verticesGroupsEffect (g # gs) s) = JNum (indexValue n + 1)
        \<and> (numPages s \<le> indexValue n \<or> indexValue n < 0 \<longrightarrow>
             \<not> pageInRange (verticesGroupsEffect (g # gs) s)))"
proof -
  have all: "parseIntString ''all'' = JNaN"
    by (simp add: parseIntString_NaN isNumericString_examples)
  have nan: "parseIntString str = JNaN" if "\<not> isNumericString str"
    using that by (simp add: parseIntString_NaN)
  have string: "(currentPage (verticesGroupsEffect (g # gs) s) = JNaN) = (\<not> isNumericString str)"
    if "page g = PageString str"
    using that
    by (simp add: verticesGroupsEffect_fields targetPage_Cons jsadd_NaN parseIntString_NaN)
  have out: "\<not> pageInRange (verticesGroupsEffect (g # gs) s)"
    if "currentPage (verticesGroupsEffect (g # gs) s) = JNaN"
    using that by (simp add: pageInRange_def)
  have number: "currentPage (verticesGroupsEffect (g # gs) s) = JNum (indexValue n + 1)
      \<and> (numPages s \<le> indexValue n \<or> indexValue n < 0 \<longrightarrow>
           \<not> pageInRange (verticesGroupsEffect (g # gs) s))"
    if "page g = PageNumber n"
    using that
    by (auto simp add: verticesGroupsEffect_fields targetPage_Cons pageInRange_def)
  have "currentPage (verticesGroupsEffect (g # gs) s) = JNaN" if "page g = PageString ''all''"
    using that by (simp add: verticesGroupsEffect_fields targetPage_Cons all)
  with string out number show ?thesis
    by blast
qed

theorem verticesGroups_update_not_clamped_witness:
  "pageInRange loadedViewer
   \<and> currentPage
        (verticesGroupsEffect [\<lparr>page = PageString ''all'', key = ''stamp'', vertices = []\<rparr>]
           loadedViewer) = JNaN
   \<and> \<not> pageInRange
        (verticesGroupsEffect [\<lparr>page = PageString ''all'', key = ''stamp'', vertices = []\<rparr>]
           loadedViewer)
   \<and> \<not> isNumericString ''-abc''
   \<and> currentPage
        (verticesGroupsEffect [\<lparr>page = PageString ''-abc'', key = ''stamp'', vertices = []\<rparr>]
           loadedViewer) = JNaN
   \<and> isNumericString ''12px''
   \<and> currentPage
        (verticesGroupsEffect [\<lparr>page = PageString ''12px'', key = ''stamp'', vertices = []\<rparr>]
           loadedViewer) \<noteq> JNaN
   \<and> currentPage
        (verticesGroupsEffect
           [\<lparr>page = PageNumber (pageIndex 7), key = ''stamp'', vertices = []\<rparr>]
           loadedViewer) = JNum 8
   \<and> \<not> pageInRange
        (verticesGroupsEffect
           [\<lparr>page = PageNumber (pageIndex 7), key = ''stamp'', vertices = []\<rparr>]
           loadedViewer)"
proof -
  have r: "pageInRange loadedViewer" and n: "numPages loadedViewer = 3"
    by (simp_all add: pageInRange_def loadedViewer_def initialViewer_def)
  have a: "currentPage
        (verticesGroupsEffect [\<lparr>page = PageString ''all'', key = ''stamp'', vertices = []\<rparr>]
           loadedViewer) = JNaN
      \<and> \<not> pageInRange
        (verticesGroupsEffect [\<lparr>page = PageString ''all'', key = ''stamp'', vertices = []\<rparr>]
           loadedViewer)"
    using verticesGroups_update_not_clamped
      [of "\<lparr>page = PageString ''all'', key = ''stamp'', vertices = []\<rparr>" "[]" loadedViewer
          "''all''" "pageIndex 0"]
    by simp
  have b: "currentPage
        (verticesGroupsEffect [\<lparr>page = PageString ''-abc'', key = ''stamp'', vertices = []\<rparr>]
           loadedViewer) = JNaN"
    using verticesGroups_update_not_clamped
      [of "\<lparr>page = PageString ''-abc'', key = ''stamp'', vertices = []\<rparr>" "[]" loadedViewer
          "''-abc''" "pageIndex 0"]
    by (simp add: isNumericString_examples)
  have c: "currentPage
        (verticesGroupsEffect [\<lparr>page = PageString ''12px'', key = ''stamp'', vertices = []\<rparr>]
           loadedViewer) \<noteq> JNaN"
    using verticesGroups_update_not_clamped
      [of "\<lparr>page = PageString ''12px'', key = ''stamp'', vertices = []\<rparr>" "[]" loadedViewer
          "''12px''" "pageIndex 0"]
    by (simp add: isNumericString_examples)
  have d: "currentPage
        (verticesGroupsEffect
           [\<lparr>page = PageNumber (pageIndex 7), key = ''stamp'', vertices = []\<rparr>]
           loadedViewer) = JNum 8
      \<and> \<not> pageInRange
        (verticesGroupsEffect
           [\<lparr>page = PageNumber (pageIndex 7), key = ''stamp'', vertices = []\<rparr>]
           loadedViewer)"
    using verticesGroups_update_not_clamped
      [of "\<lparr>page = PageNumber (pageIndex 7), key = ''stamp'', vertices = []\<rparr>" "[]"
          loadedViewer "''all''" "pageIndex 7"]
    by (simp add: indexValue_pageIndex n)
  from r a b c d show ?thesis
    by (simp add: isNumericString_examples)
qed

subsection \<open>Zoom\<close>

text \<open>
  C8. From a scale between 0.5 and 5, every sequence of actions, and so every sequence of
  zoom-in and zoom-out, leaves the scale between 0.5 and 5: zoom-in sets the scale to the
  smaller of 1.2 times the scale and 5, zoom-out to the larger of the scale divided by 1.2
  and 0.5. The scale is a real number here.
\<close>

theorem zoom_keeps_scale_in_range:
  assumes "1 / 2 \<le> scale s" and "scale s \<le> 5"
  shows "1 / 2 \<le> scale (runActions s acts) \<and> scale (runActions s acts) \<le> 5
    \<and> scale (zoomIn s) = min (scale s * 1.2) 5
    \<and> scale (zoomOut s) = max (scale s / 1.2) (1 / 2)"
  using scale_run [OF assms]
  by (simp add: zoomIn_def zoomOut_def renderPageEffect_fields MAX_SCALE_def MIN_SCALE_def)

theorem zoom_keeps_scale_in_range_witness:
  "(1 / 2 :: real) \<le> scale initialViewer \<and> scale initialViewer \<le> 5
   \<and> 1 / 2 \<le> scale (runActions initialViewer
        [ZoomIn, ZoomIn, ZoomIn, ZoomIn, ZoomIn, ZoomIn, ZoomIn, ZoomOut])
   \<and> scale (runActions initialViewer
        [ZoomIn, ZoomIn, ZoomIn, ZoomIn, ZoomIn, ZoomIn, ZoomIn, ZoomOut]) \<le> 5"
proof -
  have a: "1 / 2 \<le> scale initialViewer" and b: "scale initialViewer \<le> 5"
    by (simp_all add: initialViewer_def)
  from zoom_keeps_scale_in_range [OF a b] a b show ?thesis by simp
qed

subsection \<open>Page navigation\<close>

text \<open>
  C9. With three pages and the current page 1, three calls of \<^verbatim>\<open>nextPage\<close> give page 3
  and a fourth leaves it at 3. In general \<^verbatim>\<open>nextPage\<close> gives the smaller of the next
  page and \<^verbatim>\<open>numPages\<close>, \<^verbatim>\<open>prevPage\<close> the larger of the previous page and 1, so
  \<^verbatim>\<open>prevPage\<close> never gives a page below 1, and a current page from 1 to \<^verbatim>\<open>numPages\<close>
  stays so under both.
\<close>

theorem page_navigation_clamps:
  "(numPages s = 3 \<and> currentPage s = JNum 1 \<longrightarrow>
      currentPage (nextPage (nextPage (nextPage s))) = JNum 3
      \<and> currentPage (nextPage (nextPage (nextPage (nextPage s)))) = JNum 3)
   \<and> (currentPage s = JNum p \<longrightarrow>
        currentPage (nextPage s) = JNum (min (p + 1) (numPages s))
        \<and> currentPage (prevPage s) = JNum (max (p - 1) 1))
   \<and> (currentPage (prevPage s) = JNum q \<longrightarrow> 1 \<le> q)
   \<and> (currentPage (nextPage s) = JNum q \<longrightarrow> q \<le> numPages s)
   \<and> (pageInRange s \<longrightarrow> pageInRange (nextPage s) \<and> pageInRange (prevPage s))"
  by (cases "currentPage s")
     (auto simp add: nextPage_currentPage prevPage_currentPage pageInRange_def)

theorem page_navigation_clamps_witness:
  "currentPage (nextPage (nextPage (nextPage (initialViewer\<lparr>numPages := 3\<rparr>)))) = JNum 3
   \<and> currentPage (nextPage (nextPage (nextPage (nextPage (initialViewer\<lparr>numPages := 3\<rparr>)))))
       = JNum 3
   \<and> currentPage (prevPage (initialViewer\<lparr>numPages := 3\<rparr>)) = JNum 1
   \<and> pageInRange (initialViewer\<lparr>numPages := 3\<rparr>)
   \<and> pageInRange (nextPage (initialViewer\<lparr>numPages := 3\<rparr>))"
proof -
  have r: "pageInRange (initialViewer\<lparr>numPages := 3\<rparr>)"
    by (simp add: pageInRange_def initialViewer_def)
  show ?thesis
    using page_navigation_clamps [of "initialViewer\<lparr>numPages := 3\<rparr>" 1 1] r
    by (simp add: initialViewer_def)
qed

subsection \<open>Loading\<close>



end
